theory Spec2Isabelle
  imports Main
begin

section \<open>Data model of DarkModeProvider.tsx\<close>

text \<open>
  \<^verbatim>\<open>type DarkModeValues = 'dark' | 'light'\<close>. The two values are the strings
  \<^verbatim>\<open>'dark'\<close> and \<^verbatim>\<open>'light'\<close>; \<open>scheme_string\<close> gives the string a value is at run time,
  which is what \<^verbatim>\<open>localStorage.setItem\<close> stores and what the media queries are built from.
\<close>

datatype DarkModeValues = dark | light

fun scheme_string :: "DarkModeValues \<Rightarrow> string" where
  "scheme_string dark = ''dark''"
| "scheme_string light = ''light''"

text \<open>\<^verbatim>\<open>colorSchemes.noPreference\<close>, a plain string and not a \<open>DarkModeValues\<close>.\<close>

definition noPreference :: string where
  "noPreference = ''no-preference''"

text \<open>The template literal \<^verbatim>\<open>`(prefers-color-scheme: ${s})`\<close>.\<close>

definition prefers_color_scheme :: "string \<Rightarrow> string" where
  "prefers_color_scheme s = ''(prefers-color-scheme: '' @ s @ '')''"

text \<open>
  The merged configuration (lines 50-53) and the \<^verbatim>\<open>config\<close> prop it is merged from. In the
  prop every field is optional: \<open>None\<close> is a property the caller's object does not have.
\<close>

record config =
  localStorageKey :: string
  listenWindowEvents :: bool
  useLocalStorage :: bool

record config_prop =
  localStorageKey_prop :: "string option"
  listenWindowEvents_prop :: "bool option"
  useLocalStorage_prop :: "bool option"

definition defaultConfig :: config where
  "defaultConfig = \<lparr> localStorageKey = ''__userColorScheme'',
                     listenWindowEvents = True,
                     useLocalStorage = False \<rparr>"

text \<open>\<^verbatim>\<open>{ ...defaultConfig, ...config }\<close>: a property of the caller's object wins.\<close>

definition merge_config :: "config_prop \<Rightarrow> config" where
  "merge_config c =
     \<lparr> localStorageKey =
         (case localStorageKey_prop c of Some k \<Rightarrow> k | None \<Rightarrow> localStorageKey defaultConfig),
       listenWindowEvents =
         (case listenWindowEvents_prop c of Some b \<Rightarrow> b | None \<Rightarrow> listenWindowEvents defaultConfig),
       useLocalStorage =
         (case useLocalStorage_prop c of Some b \<Rightarrow> b | None \<Rightarrow> useLocalStorage defaultConfig) \<rparr>"

subsection \<open>Closures\<close>

text \<open>
  The functions the component creates are closures; each is represented by a constructor
  holding what it captured, and is run by an interpreter defined below.
  \<^item> \<open>Noop\<close> is \<^verbatim>\<open>() => null\<close>, the setter of the context's default value (line 28).
  \<^item> \<open>HandleChangeColorScheme u k\<close> is the callback of lines 59-68 with
    \<^verbatim>\<open>useLocalStorage = u\<close> and \<^verbatim>\<open>localStorageKey = k\<close>.
  \<^item> The three listeners of lines 70-83 capture the setter; the third also captures
    \<^verbatim>\<open>defaultValue\<close>.

  \<^verbatim>\<open>useCallback\<close> returns the same function while what it captured is the same, so within
  one provider two closures are the same function exactly when the constructor terms are
  equal; that equality is what \<^verbatim>\<open>addEventListener\<close> and \<^verbatim>\<open>removeEventListener\<close> compare.
\<close>

datatype setter = Noop | HandleChangeColorScheme bool string

datatype listener =
    HandleSetDarkColorScheme setter
  | HandleSetLightColorScheme setter
  | HandleSetDefaultColorScheme DarkModeValues setter

subsection \<open>The host and the provider's state\<close>

text \<open>
  What the code does to its surroundings, in the order it does it: the call
  \<^verbatim>\<open>setColorScheme(v)\<close> and the call \<^verbatim>\<open>localStorage.setItem(k, s)\<close>.
\<close>

datatype effect = SetColorScheme DarkModeValues | SetItem string string

type_synonym Storage = "string \<rightharpoonup> string"

text \<open>
  One record holds the host environment and the state cell of the provider instance.
  \<^item> \<open>localStorage\<close>: the global; \<open>None\<close> when it is falsy.
  \<^item> \<open>window\<close>: whether the global is truthy; \<open>window_matchMedia\<close>: whether
    \<^verbatim>\<open>window.matchMedia\<close> is there.
  \<^item> \<open>os_media q\<close> and \<open>os_matches q\<close>: the \<^verbatim>\<open>media\<close> and \<^verbatim>\<open>matches\<close> properties of
    \<^verbatim>\<open>window.matchMedia(q)\<close>.
  \<^item> \<open>targets\<close>: the MediaQueryList objects that have been handed out as event targets, by
    address (the position in the list), each with its query and its \<^verbatim>\<open>change\<close> listeners.
  \<^item> \<open>one_object_per_query\<close>: whether the host answers \<^verbatim>\<open>matchMedia(q)\<close> with the same
    object whenever \<open>q\<close> is the same. CSSOM View has \<^verbatim>\<open>matchMedia\<close> return a new
    MediaQueryList object on every call, which is \<open>False\<close> here; a test double that keeps one
    object per query is \<open>True\<close>.
  \<^item> \<open>colorScheme\<close>: the \<^verbatim>\<open>useState\<close> cell; \<open>log\<close>: the effects performed so far,
    oldest first.

  The globals \<^verbatim>\<open>window\<close> and \<^verbatim>\<open>localStorage\<close> are declared, as the DOM typings the
  component compiles against have them; the store takes every write.
\<close>

record world =
  localStorage :: "Storage option"
  window :: bool
  window_matchMedia :: bool
  os_media :: "string \<Rightarrow> string"
  os_matches :: "string \<Rightarrow> bool"
  one_object_per_query :: bool
  targets :: "(string \<times> listener list) list"
  colorScheme :: DarkModeValues
  log :: "effect list"

section \<open>The Preference Resolver: getInitialColorScheme (lines 149-176)\<close>

text \<open>\<^verbatim>\<open>localStorage.getItem(localStorageKey) || ''\<close>: a missing entry reads as the empty string.\<close>

definition getItem_or_empty :: "Storage \<Rightarrow> string \<Rightarrow> string" where
  "getItem_or_empty store k = (case store k of None \<Rightarrow> '''' | Some s \<Rightarrow> if s = '''' then '''' else s)"

text \<open>
  Lines 154-159: the value the first \<^verbatim>\<open>if\<close> returns, or \<open>None\<close> when control falls out of it.
\<close>

definition localValue_scheme :: "bool \<Rightarrow> string \<Rightarrow> world \<Rightarrow> DarkModeValues option" where
  "localValue_scheme useLS key w =
     (if useLS then
        (case localStorage w of
           None \<Rightarrow> None
         | Some store \<Rightarrow>
             (let localValue = getItem_or_empty store key in
              if localValue = ''dark'' then Some dark
              else if localValue = ''light'' then Some light
              else None))
      else None)"

text \<open>
  Lines 161-175: \<^verbatim>\<open>window && window.matchMedia && window.matchMedia(q).matches\<close>. The
  MediaQueryList object is only read and then dropped, so it is not entered in \<open>targets\<close>.
\<close>

definition query_matches :: "string \<Rightarrow> world \<Rightarrow> bool" where
  "query_matches q w = (window w \<and> window_matchMedia w \<and> os_matches w q)"

definition getInitialColorScheme :: "DarkModeValues \<Rightarrow> bool \<Rightarrow> string \<Rightarrow> world \<Rightarrow> DarkModeValues" where
  "getInitialColorScheme defaultValue useLS key w =
     (case localValue_scheme useLS key w of
        Some v \<Rightarrow> v
      | None \<Rightarrow>
          if query_matches (prefers_color_scheme (scheme_string dark)) w then dark
          else if query_matches (prefers_color_scheme (scheme_string light)) w then light
          else defaultValue)"

section \<open>The update path: handleChangeColorScheme (lines 59-68)\<close>

text \<open>
  \<^verbatim>\<open>setColorScheme(v)\<close> writes the state cell; \<^verbatim>\<open>localStorage.setItem(k, s)\<close> writes the
  store. Each appends itself to the log, so the log keeps the order of the two calls.

  The cell is that of a mounted provider. After an unmount React drops the update, and
  only the call is left; what is stated about a world after an unmount is stated of its
  listeners and of its log, never of its cell.
\<close>

definition setColorScheme :: "DarkModeValues \<Rightarrow> world \<Rightarrow> world" where
  "setColorScheme v w = w\<lparr>colorScheme := v, log := log w @ [SetColorScheme v]\<rparr>"

definition setItem :: "string \<Rightarrow> string \<Rightarrow> Storage \<Rightarrow> world \<Rightarrow> world" where
  "setItem k s store w =
     w\<lparr>localStorage := Some (store(k \<mapsto> s)), log := log w @ [SetItem k s]\<rparr>"

definition handleChangeColorScheme :: "bool \<Rightarrow> string \<Rightarrow> DarkModeValues \<Rightarrow> world \<Rightarrow> world" where
  "handleChangeColorScheme useLS key colorSchema w =
     (let w1 = setColorScheme colorSchema w in
      if useLS then
        (case localStorage w1 of
           None \<Rightarrow> w1
         | Some store \<Rightarrow> setItem key (scheme_string colorSchema) store w1)
      else w1)"

fun call_setter :: "setter \<Rightarrow> DarkModeValues \<Rightarrow> world \<Rightarrow> world" where
  "call_setter Noop v w = w"
| "call_setter (HandleChangeColorScheme useLS key) v w = handleChangeColorScheme useLS key v w"

section \<open>The listeners (lines 70-83)\<close>

text \<open>The \<^verbatim>\<open>change\<close> event of a MediaQueryList; only \<^verbatim>\<open>event.matches\<close> is read.\<close>

record event =
  matches :: bool

text \<open>\<^verbatim>\<open>(event) => event.matches && handleChangeColorScheme(...)\<close>\<close>

fun call_listener :: "listener \<Rightarrow> event \<Rightarrow> world \<Rightarrow> world" where
  "call_listener (HandleSetDarkColorScheme f) ev w =
     (if matches ev then call_setter f dark w else w)"
| "call_listener (HandleSetLightColorScheme f) ev w =
     (if matches ev then call_setter f light w else w)"
| "call_listener (HandleSetDefaultColorScheme defaultValue f) ev w =
     (if matches ev then call_setter f defaultValue w else w)"

section \<open>The host's event targets\<close>

text \<open>The address of the first MediaQueryList object of query \<open>q\<close>, if there is one.\<close>

fun find_target :: "string \<Rightarrow> (string \<times> listener list) list \<Rightarrow> nat option" where
  "find_target q [] = None"
| "find_target q (t # ts) =
     (if fst t = q then Some 0 else map_option Suc (find_target q ts))"

text \<open>
  \<^verbatim>\<open>window.matchMedia(q)\<close> as the source of an event target: the object's address and the
  world that holds it. A host with one object per query returns the object it already has;
  otherwise the object is new, with no listener.
\<close>

definition matchMedia :: "string \<Rightarrow> world \<Rightarrow> nat \<times> world" where
  "matchMedia q w =
     (case (if one_object_per_query w then find_target q (targets w) else None) of
        Some a \<Rightarrow> (a, w)
      | None \<Rightarrow> (length (targets w), w\<lparr>targets := targets w @ [(q, [])]\<rparr>))"

text \<open>Changing the listeners of the object at an address; no object there, no change.\<close>

fun at_target ::
  "nat \<Rightarrow> (listener list \<Rightarrow> listener list) \<Rightarrow> (string \<times> listener list) list
     \<Rightarrow> (string \<times> listener list) list" where
  "at_target a f [] = []"
| "at_target 0 f (t # ts) = (fst t, f (snd t)) # ts"
| "at_target (Suc a) f (t # ts) = t # at_target a f ts"

text \<open>
  \<^verbatim>\<open>target.addEventListener('change', l)\<close> adds \<open>l\<close> unless the target has it already;
  \<^verbatim>\<open>target.removeEventListener('change', l)\<close> takes it off that target.
\<close>

definition addEventListener :: "nat \<Rightarrow> listener \<Rightarrow> world \<Rightarrow> world" where
  "addEventListener a l w =
     w\<lparr>targets := at_target a (\<lambda>ls. if l \<in> set ls then ls else ls @ [l]) (targets w)\<rparr>"

definition removeEventListener :: "nat \<Rightarrow> listener \<Rightarrow> world \<Rightarrow> world" where
  "removeEventListener a l w = w\<lparr>targets := at_target a (removeAll l) (targets w)\<rparr>"

text \<open>
  The listeners a \<^verbatim>\<open>change\<close> event of query \<open>q\<close> reaches: those of every MediaQueryList
  object of that query, in the order the objects were created. The host fires the event at
  each of them.
\<close>

definition listeners_of :: "string \<Rightarrow> world \<Rightarrow> listener list" where
  "listeners_of q w = concat (map snd (filter (\<lambda>t. fst t = q) (targets w)))"

definition dispatch_change :: "string \<Rightarrow> event \<Rightarrow> world \<Rightarrow> world" where
  "dispatch_change q ev w = fold (\<lambda>l. call_listener l ev) (listeners_of q w) w"

section \<open>The OS Signal Watcher: the effect of lines 85-121\<close>

datatype error = TypeError

text \<open>The function the effect returns (lines 103-113), with the three listeners it captured.\<close>

datatype cleanup = RemoveListeners listener listener listener

text \<open>\<^verbatim>\<open>window.matchMedia(q).addEventListener('change', l)\<close> and its counterpart.\<close>

definition subscribe :: "string \<Rightarrow> listener \<Rightarrow> world \<Rightarrow> world" where
  "subscribe q l w = (case matchMedia q w of (a, w1) \<Rightarrow> addEventListener a l w1)"

definition unsubscribe :: "string \<Rightarrow> listener \<Rightarrow> world \<Rightarrow> world" where
  "unsubscribe q l w = (case matchMedia q w of (a, w1) \<Rightarrow> removeEventListener a l w1)"

text \<open>
  The condition of line 86-93 is evaluated left to right. \<^verbatim>\<open>window.matchMedia\<close> is called
  without the test \<open>getInitialColorScheme\<close> makes, so a truthy \<^verbatim>\<open>window\<close> without
  \<^verbatim>\<open>matchMedia\<close> raises a TypeError there. The object of the umbrella query is only read.
\<close>

definition watcher_effect ::
  "config \<Rightarrow> listener \<Rightarrow> listener \<Rightarrow> listener \<Rightarrow> world \<Rightarrow> error + (cleanup option \<times> world)" where
  "watcher_effect c handleSetDark handleSetLight handleSetDefault w =
     (if listenWindowEvents c \<and> \<not> (useLocalStorage c \<and> localStorage w \<noteq> None) \<and> window w then
        if \<not> window_matchMedia w then Inl TypeError
        else if os_media w ''(prefers-color-scheme)'' \<noteq> ''not all'' then
          Inr (Some (RemoveListeners handleSetDark handleSetLight handleSetDefault),
               subscribe (prefers_color_scheme noPreference) handleSetDefault
                 (subscribe (prefers_color_scheme (scheme_string light)) handleSetLight
                   (subscribe (prefers_color_scheme (scheme_string dark)) handleSetDark w)))
        else Inr (None, w)
      else Inr (None, w))"

fun run_cleanup :: "cleanup \<Rightarrow> world \<Rightarrow> error + world" where
  "run_cleanup (RemoveListeners handleSetDark handleSetLight handleSetDefault) w =
     (if \<not> (window w \<and> window_matchMedia w) then Inl TypeError
      else
        Inr (unsubscribe (prefers_color_scheme noPreference) handleSetDefault
              (unsubscribe (prefers_color_scheme (scheme_string light)) handleSetLight
                (unsubscribe (prefers_color_scheme (scheme_string dark)) handleSetDark w))))"

section \<open>The provider (lines 45-130)\<close>

text \<open>The props: \<open>None\<close> is a prop that was not passed, which takes the parameter's default.\<close>

record props =
  defaultValue :: "DarkModeValues option"
  config :: "config_prop option"

definition empty_config :: config_prop where
  "empty_config = \<lparr> localStorageKey_prop = None, listenWindowEvents_prop = None,
                    useLocalStorage_prop = None \<rparr>"

definition props_defaultValue :: "props \<Rightarrow> DarkModeValues" where
  "props_defaultValue p = (case defaultValue p of None \<Rightarrow> light | Some v \<Rightarrow> v)"

definition props_config :: "props \<Rightarrow> config" where
  "props_config p = merge_config (case config p of None \<Rightarrow> empty_config | Some c \<Rightarrow> c)"

text \<open>A mounted provider: its default value, its merged configuration, its effect's cleanup.\<close>

record provider =
  provider_defaultValue :: DarkModeValues
  provider_config :: config
  provider_cleanup :: "cleanup option"

text \<open>The setter of this provider, \<^verbatim>\<open>handleChangeColorScheme\<close> with what it captured.\<close>

definition provider_setter :: "config \<Rightarrow> setter" where
  "provider_setter c = HandleChangeColorScheme (useLocalStorage c) (localStorageKey c)"

text \<open>
  Mounting: \<^verbatim>\<open>useState\<close> initialises the cell with \<open>getInitialColorScheme\<close>, the callbacks
  are created, and after the first render the effect runs.
\<close>

definition mount :: "props \<Rightarrow> world \<Rightarrow> error + (provider \<times> world)" where
  "mount p w =
     (let d = props_defaultValue p;
          c = props_config p;
          w1 = w\<lparr>colorScheme := getInitialColorScheme d (useLocalStorage c) (localStorageKey c) w\<rparr>;
          f = provider_setter c
      in case watcher_effect c (HandleSetDarkColorScheme f) (HandleSetLightColorScheme f)
                (HandleSetDefaultColorScheme d f) w1 of
           Inl e \<Rightarrow> Inl e
         | Inr (cl, w2) \<Rightarrow>
             Inr (\<lparr> provider_defaultValue = d, provider_config = c, provider_cleanup = cl \<rparr>, w2))"

text \<open>Unmounting runs the cleanup of the effect, if the effect returned one.\<close>

definition unmount :: "provider \<Rightarrow> world \<Rightarrow> error + world" where
  "unmount pr w = (case provider_cleanup pr of None \<Rightarrow> Inr w | Some cl \<Rightarrow> run_cleanup cl w)"

text \<open>The value the provider gives its context (line 124): the pair of cell and setter.\<close>

definition provider_value :: "provider \<Rightarrow> world \<Rightarrow> DarkModeValues \<times> setter" where
  "provider_value pr w = (colorScheme w, provider_setter (provider_config pr))"

text \<open>The watcher is active when the effect ran to its end and subscribed.\<close>

definition watcher_active :: "error + (provider \<times> world) \<Rightarrow> bool" where
  "watcher_active r = (case r of Inl e \<Rightarrow> False | Inr (pr, w) \<Rightarrow> provider_cleanup pr \<noteq> None)"

text \<open>
  What can happen to a mounted provider: a consumer calls the setter, or the host fires a
  \<^verbatim>\<open>change\<close> event of some query.
\<close>

datatype operation = Set DarkModeValues | Change string event

fun apply_operation :: "provider \<Rightarrow> operation \<Rightarrow> world \<Rightarrow> world" where
  "apply_operation pr (Set v) w = call_setter (snd (provider_value pr w)) v w"
| "apply_operation pr (Change q ev) w = dispatch_change q ev w"

definition run_operations :: "provider \<Rightarrow> operation list \<Rightarrow> world \<Rightarrow> world" where
  "run_operations pr ops w = fold (apply_operation pr) ops w"

text \<open>
  The same operations told as calls of setters, for stating what a run does. A listener
  given an event calls its setter once, with its value, when \<^verbatim>\<open>event.matches\<close> is true,
  and not at all otherwise. A \<open>Set\<close> is one call of the provider's setter; a \<open>Change\<close>
  is the calls of the listeners the event reaches, in their order.
\<close>

fun listener_calls :: "listener \<Rightarrow> event \<Rightarrow> (setter \<times> DarkModeValues) list" where
  "listener_calls (HandleSetDarkColorScheme f) ev = (if matches ev then [(f, dark)] else [])"
| "listener_calls (HandleSetLightColorScheme f) ev = (if matches ev then [(f, light)] else [])"
| "listener_calls (HandleSetDefaultColorScheme d f) ev = (if matches ev then [(f, d)] else [])"

fun operation_calls ::
  "provider \<Rightarrow> world \<Rightarrow> operation \<Rightarrow> (setter \<times> DarkModeValues) list" where
  "operation_calls pr w (Set v) = [(provider_setter (provider_config pr), v)]"
| "operation_calls pr w (Change q ev) =
     concat (map (\<lambda>l. listener_calls l ev) (listeners_of q w))"

definition calls_of ::
  "provider \<Rightarrow> world \<Rightarrow> operation list \<Rightarrow> (setter \<times> DarkModeValues) list" where
  "calls_of pr w ops = concat (map (operation_calls pr w) ops)"

definition run_calls :: "(setter \<times> DarkModeValues) list \<Rightarrow> world \<Rightarrow> world" where
  "run_calls cs w = fold (\<lambda>c. call_setter (fst c) (snd c)) cs w"

text \<open>
  What one call of a setter is to do, in the words of the specification: the no-op setter
  does nothing; a provider's setter with \<open>useLocalStorage = useLS\<close> and key \<open>key\<close>
  updates the scheme and, exactly when \<open>useLS\<close> is true and the store is available,
  writes the string of the value under \<open>key\<close>. \<open>call_effects\<close> is what the call adds to
  the log, \<open>call_store\<close> what it makes of an available store.
\<close>

fun call_effects :: "bool \<Rightarrow> setter \<times> DarkModeValues \<Rightarrow> effect list" where
  "call_effects available (Noop, v) = []"
| "call_effects available (HandleChangeColorScheme useLS key, v) =
     SetColorScheme v # (if useLS \<and> available then [SetItem key (scheme_string v)] else [])"

fun call_store :: "setter \<times> DarkModeValues \<Rightarrow> Storage \<Rightarrow> Storage" where
  "call_store (Noop, v) store = store"
| "call_store (HandleChangeColorScheme useLS key, v) store =
     (if useLS then store(key \<mapsto> scheme_string v) else store)"

section \<open>The context, useDarkMode and DarkModeConsumer (lines 26-28, 132-147)\<close>

text \<open>\<^verbatim>\<open>React.createContext([colorSchemes.light, () => null])\<close>\<close>

definition DarkModeContext_default :: "DarkModeValues \<times> setter" where
  "DarkModeContext_default = (light, Noop)"

text \<open>
  Reading the context at a place in the tree: the value of the nearest enclosing provider
  (\<open>Some\<close> of the pair it renders with), or the default value of the context when there
  is none.
\<close>

definition read_context :: "(DarkModeValues \<times> setter) option \<Rightarrow> DarkModeValues \<times> setter" where
  "read_context enclosing = (case enclosing of None \<Rightarrow> DarkModeContext_default | Some v \<Rightarrow> v)"

text \<open>\<^verbatim>\<open>useContext(DarkModeContext)\<close>\<close>

definition useDarkMode :: "(DarkModeValues \<times> setter) option \<Rightarrow> DarkModeValues \<times> setter" where
  "useDarkMode enclosing = read_context enclosing"

text \<open>
  Props objects: property names to values. A value is a color scheme, a setter, or
  something else the caller passed.
\<close>

datatype prop_value = SchemeValue DarkModeValues | SetterValue setter | OtherValue string

type_synonym props_object = "string \<rightharpoonup> prop_value"

text \<open>
  \<^verbatim>\<open>{...value}\<close> where \<^verbatim>\<open>value\<close> is the two-element array of the context: the own
  enumerable properties of an array are its indices, \<^verbatim>\<open>"0"\<close> and \<^verbatim>\<open>"1"\<close>.
\<close>

definition spread_value :: "DarkModeValues \<times> setter \<Rightarrow> props_object" where
  "spread_value v = [''0'' \<mapsto> SchemeValue (fst v), ''1'' \<mapsto> SetterValue (snd v)]"

text \<open>
  \<^verbatim>\<open><Component {...props} {...value} />\<close> inside \<^verbatim>\<open>DarkModeContext.Consumer\<close>: the
  later spread wins where both have a property. The result is what \<open>Component\<close> makes
  of the props it is given.
\<close>

definition DarkModeConsumer ::
  "(props_object \<Rightarrow> 'a) \<Rightarrow> (DarkModeValues \<times> setter) option \<Rightarrow> props_object \<Rightarrow> 'a" where
  "DarkModeConsumer Component enclosing p = Component (p ++ spread_value (read_context enclosing))"

section \<open>Hosts used as concrete inputs\<close>

text \<open>
  A browser-like host: \<^verbatim>\<open>window\<close> and \<^verbatim>\<open>matchMedia\<close> are there, every query is
  supported (its \<^verbatim>\<open>media\<close> is the query itself), no event target has been handed out yet,
  and nothing has been logged. The store, the object policy of \<^verbatim>\<open>matchMedia\<close> and the
  queries that match are the parameters.
\<close>

definition host :: "Storage option \<Rightarrow> bool \<Rightarrow> (string \<Rightarrow> bool) \<Rightarrow> world" where
  "host store same prefers =
     \<lparr> localStorage = store, window = True, window_matchMedia = True,
       os_media = (\<lambda>q. q), os_matches = prefers, one_object_per_query = same,
       targets = [], colorScheme = light, log = [] \<rparr>"

text \<open>A provider given no props at all, and one configured to use the store under a key.\<close>

definition default_props :: props where
  "default_props = \<lparr> defaultValue = None, config = None \<rparr>"

definition storage_props :: "string \<Rightarrow> DarkModeValues option \<Rightarrow> props" where
  "storage_props k d =
     \<lparr> defaultValue = d,
       config = Some \<lparr> localStorageKey_prop = Some k, listenWindowEvents_prop = None,
                      useLocalStorage_prop = Some True \<rparr> \<rparr>"

text \<open>The whole life of a provider on which nothing happens: mounted, then unmounted.\<close>

definition mount_then_unmount :: "props \<Rightarrow> world \<Rightarrow> error + world" where
  "mount_then_unmount p w =
     (case mount p w of Inl e \<Rightarrow> Inl e | Inr (pr, w1) \<Rightarrow> unmount pr w1)"

section \<open>Properties of the resolver\<close>

lemma getItem_or_empty_eq:
  "getItem_or_empty store k = (case store k of None \<Rightarrow> [] | Some s \<Rightarrow> s)"
  by (simp add: getItem_or_empty_def split: option.splits)

text \<open>
  C1. The precedence of \<open>getInitialColorScheme\<close>. When \<open>useLocalStorage\<close> is true, the
  store is available and the string stored under the key is exactly \<^verbatim>\<open>"dark"\<close> or
  \<^verbatim>\<open>"light"\<close>, the result is that stored value, whatever the OS reports and whatever the
  default is. In every other case the result is dark if the dark query matches, else light
  if the light query matches, else the default value.
\<close>

theorem getInitialColorScheme_precedence:
  "(useLS \<and> localStorage w = Some store \<and> store key = Some s \<and> (s = ''dark'' \<or> s = ''light'')
      \<longrightarrow> scheme_string (getInitialColorScheme d useLS key w) = s)
   \<and> (\<not> (useLS \<and> (\<exists>store s. localStorage w = Some store \<and> store key = Some s
                      \<and> (s = ''dark'' \<or> s = ''light'')))
      \<longrightarrow> getInitialColorScheme d useLS key w =
           (if query_matches (prefers_color_scheme ''dark'') w then dark
            else if query_matches (prefers_color_scheme ''light'') w then light
            else d))"
  by (auto simp: getInitialColorScheme_def localValue_scheme_def getItem_or_empty_eq
           split: option.splits)

theorem getInitialColorScheme_precedence_witness:
  "scheme_string (getInitialColorScheme light True ''k''
      (host (Some [''k'' \<mapsto> ''dark'']) False (\<lambda>q. q = prefers_color_scheme ''light''))) = ''dark''
   \<and> getInitialColorScheme dark False ''k''
      (host (Some [''k'' \<mapsto> ''dark'']) False (\<lambda>q. q = prefers_color_scheme ''light'')) = light
   \<and> getInitialColorScheme dark True ''k''
      (host (Some [''k'' \<mapsto> ''blue'']) False (\<lambda>q. False)) = dark"
  using getInitialColorScheme_precedence
          [of True "host (Some [''k'' \<mapsto> ''dark'']) False (\<lambda>q. q = prefers_color_scheme ''light'')"
              "[''k'' \<mapsto> ''dark'']" "''k''" "''dark''" light]
        getInitialColorScheme_precedence
          [of False "host (Some [''k'' \<mapsto> ''dark'']) False (\<lambda>q. q = prefers_color_scheme ''light'')"
              "[''k'' \<mapsto> ''dark'']" "''k''" "''dark''" dark]
        getInitialColorScheme_precedence
          [of True "host (Some [''k'' \<mapsto> ''blue'']) False (\<lambda>q. False)"
              "[''k'' \<mapsto> ''blue'']" "''k''" "''blue''" dark]
  by (simp add: host_def query_matches_def prefers_color_scheme_def)

text \<open>
  C8. With \<open>useLocalStorage\<close> true and a stored string that is neither \<^verbatim>\<open>"dark"\<close> nor
  \<^verbatim>\<open>"light"\<close> (the empty string included), \<open>getInitialColorScheme\<close> gives what it gives
  when the key has no entry: dark or light as the OS queries match, else the default.
\<close>

theorem getInitialColorScheme_ignores_other_strings:
  "localStorage w = Some store \<Longrightarrow> store key = Some v \<Longrightarrow> v \<noteq> ''dark'' \<Longrightarrow> v \<noteq> ''light'' \<Longrightarrow>
   getInitialColorScheme d True key w =
     getInitialColorScheme d True key (w\<lparr>localStorage := Some (store(key := None))\<rparr>)
   \<and> getInitialColorScheme d True key w =
       (if query_matches (prefers_color_scheme ''dark'') w then dark
        else if query_matches (prefers_color_scheme ''light'') w then light
        else d)"
  by (simp add: getInitialColorScheme_def localValue_scheme_def query_matches_def
        getItem_or_empty_eq)

theorem getInitialColorScheme_ignores_other_strings_witness:
  "getInitialColorScheme light True ''k''
      (host (Some [''k'' \<mapsto> '''']) False (\<lambda>q. q = prefers_color_scheme ''dark'')) = dark
   \<and> getInitialColorScheme dark True ''k''
      (host (Some [''k'' \<mapsto> ''Dark'']) False (\<lambda>q. q = prefers_color_scheme ''light'')) = light"
  using getInitialColorScheme_ignores_other_strings
          [of "host (Some [''k'' \<mapsto> '''']) False (\<lambda>q. q = prefers_color_scheme ''dark'')"
              "[''k'' \<mapsto> '''']" "''k''" "''''" light]
        getInitialColorScheme_ignores_other_strings
          [of "host (Some [''k'' \<mapsto> ''Dark'']) False (\<lambda>q. q = prefers_color_scheme ''light'')"
              "[''k'' \<mapsto> ''Dark'']" "''k''" "''Dark''" dark]
  by (simp add: host_def query_matches_def prefers_color_scheme_def getInitialColorScheme_def
        localValue_scheme_def getItem_or_empty_eq)

section \<open>Properties of the context\<close>

text \<open>
  C10. Outside any provider, \<open>useDarkMode\<close> returns the default value of the context:
  the pair of \<open>light\<close> and a setter that does nothing. Calling that setter with any value
  leaves the whole world as it is: the state cell, the store and the log.
\<close>

theorem useDarkMode_without_provider:
  "useDarkMode None = (light, Noop) \<and> call_setter (snd (useDarkMode None)) v w = w"
  by (simp add: useDarkMode_def read_context_def DarkModeContext_default_def)

section \<open>Properties of the update path\<close>

lemma handleChangeColorScheme_log:
  "log (handleChangeColorScheme u k v w) =
     log w @ SetColorScheme v #
       (if u \<and> localStorage w \<noteq> None then [SetItem k (scheme_string v)] else [])"
  by (auto simp: handleChangeColorScheme_def setColorScheme_def setItem_def Let_def
           split: option.splits)

lemma handleChangeColorScheme_targets:
  "targets (handleChangeColorScheme u k v w) = targets w"
  by (auto simp: handleChangeColorScheme_def setColorScheme_def setItem_def Let_def
           split: option.splits)

lemma handleChangeColorScheme_available:
  "(localStorage (handleChangeColorScheme u k v w) = None) = (localStorage w = None)"
  by (auto simp: handleChangeColorScheme_def setColorScheme_def setItem_def Let_def
           split: option.splits)

text \<open>
  C2, as the code has it. With \<open>useLocalStorage\<close> true and the store available, a call
  of the provider's setter with \<open>v\<close> does both things on every call: it sets the state cell
  to \<open>v\<close> and it stores the string of \<open>v\<close> under the configured key. The call of
  \<^verbatim>\<open>setColorScheme\<close> (line 61) comes first and the call of \<^verbatim>\<open>localStorage.setItem\<close>
  (line 64) second.
\<close>

theorem handleChangeColorScheme_updates_then_writes:
  "useLocalStorage c \<Longrightarrow> localStorage w = Some store \<Longrightarrow>
   call_setter (provider_setter c) v w =
     w\<lparr>colorScheme := v,
       localStorage := Some (store(localStorageKey c \<mapsto> scheme_string v)),
       log := log w @ [SetColorScheme v, SetItem (localStorageKey c) (scheme_string v)]\<rparr>"
  by (simp add: provider_setter_def handleChangeColorScheme_def setColorScheme_def setItem_def)

theorem handleChangeColorScheme_updates_then_writes_witness:
  "useLocalStorage (defaultConfig\<lparr>useLocalStorage := True\<rparr>)
   \<and> localStorage (host (Some Map.empty) False (\<lambda>q. False)) = Some Map.empty
   \<and> log (call_setter (provider_setter (defaultConfig\<lparr>useLocalStorage := True\<rparr>)) dark
            (host (Some Map.empty) False (\<lambda>q. False)))
       = [SetColorScheme dark, SetItem ''__userColorScheme'' ''dark'']"
  using handleChangeColorScheme_updates_then_writes
          [of "defaultConfig\<lparr>useLocalStorage := True\<rparr>"
              "host (Some Map.empty) False (\<lambda>q. False)" Map.empty dark]
  by (simp add: host_def defaultConfig_def)

text \<open>
  C2, with the write to the store first and the update of the state cell second: that
  order is not the order of the code. On a host with an empty store, setting \<open>dark\<close>
  under the key \<^verbatim>\<open>"k"\<close> performs the update first and the write second.
\<close>

theorem handleChangeColorScheme_write_first_counterexample:
  "log (handleChangeColorScheme True ''k'' dark (host (Some Map.empty) False (\<lambda>q. False)))
     = [SetColorScheme dark, SetItem ''k'' ''dark'']
   \<and> log (handleChangeColorScheme True ''k'' dark (host (Some Map.empty) False (\<lambda>q. False)))
     \<noteq> [SetItem ''k'' ''dark'', SetColorScheme dark]"
  by (simp add: handleChangeColorScheme_def setColorScheme_def setItem_def host_def)

section \<open>Properties of mounting\<close>

lemma at_target_new:
  "at_target (length ts) f (ts @ [t]) = ts @ [(fst t, f (snd t))]"
  by (induction ts) auto

lemma at_target_found:
  "find_target q ts = Some a \<Longrightarrow>
   set (concat (map snd (filter (\<lambda>t. fst t = q')
          (at_target a (\<lambda>ls. if l \<in> set ls then ls else ls @ [l]) ts)))) =
   set (concat (map snd (filter (\<lambda>t. fst t = q') ts))) \<union> (if q' = q then {l} else {})"
proof (induction ts arbitrary: a)
  case Nil
  then show ?case by simp
next
  case (Cons t ts)
  show ?case
  proof (cases "fst t = q")
    case True
    with Cons.prems have "a = 0" by simp
    with True show ?thesis by auto
  next
    case False
    with Cons.prems obtain b where b: "find_target q ts = Some b" "a = Suc b"
      by auto
    from Cons.IH [OF b(1)] b(2) False show ?thesis by auto
  qed
qed

text \<open>Subscribing adds the listener to the listeners of its query, on either kind of host.\<close>

lemma listeners_of_subscribe:
  "set (listeners_of q' (subscribe q l w)) =
     set (listeners_of q' w) \<union> (if q' = q then {l} else {})"
proof (cases "if one_object_per_query w then find_target q (targets w) else None")
  case None
  then show ?thesis
    by (auto simp: subscribe_def matchMedia_def addEventListener_def listeners_of_def
          at_target_new)
next
  case (Some a)
  then have f: "find_target q (targets w) = Some a"
    by (simp split: if_splits)
  show ?thesis
    using Some at_target_found [OF f, of q' l]
    by (simp add: subscribe_def matchMedia_def addEventListener_def listeners_of_def)
qed

lemma subscribe_fields:
  "localStorage (subscribe q l w) = localStorage w"
  "log (subscribe q l w) = log w"
  "colorScheme (subscribe q l w) = colorScheme w"
  by (simp_all add: subscribe_def matchMedia_def addEventListener_def split: option.splits)

lemma subscribe_new_target:
  "find_target q (targets w) = None \<Longrightarrow> targets (subscribe q l w) = targets w @ [(q, [l])]"
  by (simp add: subscribe_def matchMedia_def addEventListener_def at_target_new)

lemma watcher_effect_cases:
  assumes "watcher_effect c a b d w = Inr (cl, w')"
  obtains (inactive) "cl = None" "w' = w"
  | (active) "cl = Some (RemoveListeners a b d)"
      "w' = subscribe (prefers_color_scheme noPreference) d
              (subscribe (prefers_color_scheme (scheme_string light)) b
                (subscribe (prefers_color_scheme (scheme_string dark)) a w))"
  using assms by (auto simp: watcher_effect_def split: if_splits)

lemma mount_cases:
  assumes "mount p w = Inr (pr, w1)"
  obtains (inactive) "provider_cleanup pr = None"
      "w1 = w\<lparr>colorScheme := getInitialColorScheme (props_defaultValue p)
                 (useLocalStorage (props_config p)) (localStorageKey (props_config p)) w\<rparr>"
  | (active) "provider_cleanup pr \<noteq> None"
      "w1 = subscribe (prefers_color_scheme noPreference)
              (HandleSetDefaultColorScheme (props_defaultValue p) (provider_setter (props_config p)))
              (subscribe (prefers_color_scheme (scheme_string light))
                (HandleSetLightColorScheme (provider_setter (props_config p)))
                (subscribe (prefers_color_scheme (scheme_string dark))
                  (HandleSetDarkColorScheme (provider_setter (props_config p)))
                  (w\<lparr>colorScheme := getInitialColorScheme (props_defaultValue p)
                        (useLocalStorage (props_config p))
                        (localStorageKey (props_config p)) w\<rparr>)))"
proof -
  let ?f = "provider_setter (props_config p)"
  let ?w = "w\<lparr>colorScheme := getInitialColorScheme (props_defaultValue p)
                 (useLocalStorage (props_config p)) (localStorageKey (props_config p)) w\<rparr>"
  from assms obtain cl where
    e: "watcher_effect (props_config p) (HandleSetDarkColorScheme ?f)
          (HandleSetLightColorScheme ?f)
          (HandleSetDefaultColorScheme (props_defaultValue p) ?f) ?w = Inr (cl, w1)"
    and cl: "provider_cleanup pr = cl"
    by (auto simp: mount_def Let_def split: sum.splits)
  from e show thesis
  proof (cases rule: watcher_effect_cases)
    case inactive
    then show ?thesis using cl that(1) by simp
  next
    case active
    then show ?thesis using cl that(2) by simp
  qed
qed

lemma mount_facts:
  assumes "mount p w = Inr (pr, w1)"
  shows "provider_config pr = props_config p" and "localStorage w1 = localStorage w"
    and "log w1 = log w"
proof -
  show "provider_config pr = props_config p"
    using assms by (auto simp: mount_def Let_def split: sum.splits)
  show "localStorage w1 = localStorage w" and "log w1 = log w"
    using assms by (cases rule: mount_cases; simp add: subscribe_fields)+
qed

lemma mount_inactive_targets:
  "mount p w = Inr (pr, w1) \<Longrightarrow> provider_cleanup pr = None \<Longrightarrow> targets w1 = targets w"
  by (erule mount_cases) simp_all

text \<open>
  On a page where no event target has been handed out yet, an active watcher leaves
  exactly three targets, one per query, each with its one listener.
\<close>

lemma mount_targets:
  assumes "targets w = []" and "mount p w = Inr (pr, w1)" and "provider_cleanup pr \<noteq> None"
  shows "targets w1 =
     [(prefers_color_scheme ''dark'',
         [HandleSetDarkColorScheme (provider_setter (props_config p))]),
      (prefers_color_scheme ''light'',
         [HandleSetLightColorScheme (provider_setter (props_config p))]),
      (prefers_color_scheme ''no-preference'',
         [HandleSetDefaultColorScheme (props_defaultValue p) (provider_setter (props_config p))])]"
  using assms(2)
proof (cases rule: mount_cases)
  case inactive
  with assms(3) show ?thesis by simp
next
  case active
  show ?thesis
    unfolding active(2)
    by (simp add: subscribe_new_target assms(1) prefers_color_scheme_def noPreference_def)
qed

lemma mount_with_storage:
  "useLocalStorage (props_config p) \<Longrightarrow> localStorage w \<noteq> None \<Longrightarrow>
   mount p w =
     Inr (\<lparr> provider_defaultValue = props_defaultValue p, provider_config = props_config p,
            provider_cleanup = None \<rparr>,
          w\<lparr>colorScheme := getInitialColorScheme (props_defaultValue p) True
                (localStorageKey (props_config p)) w\<rparr>)"
  by (simp add: mount_def watcher_effect_def Let_def)

text \<open>
  C3. Mounting a provider makes the watcher active exactly when \<open>listenWindowEvents\<close> is
  true, it is not the case that \<open>useLocalStorage\<close> is true and the store is available, and
  the host's query facility is supported: \<^verbatim>\<open>window\<close> and \<^verbatim>\<open>window.matchMedia\<close> are there
  and the \<^verbatim>\<open>media\<close> of the umbrella query is not \<^verbatim>\<open>"not all"\<close>. An active watcher has
  its three listeners among the listeners of the dark, light and no-preference queries; a
  watcher that is not active has left the event targets as they were. (Where the first two
  conditions hold and \<^verbatim>\<open>window\<close> has no \<^verbatim>\<open>matchMedia\<close>, the effect raises a TypeError;
  the watcher is not active then either.)
\<close>

theorem watcher_active_iff:
  "(watcher_active (mount p w) \<longleftrightarrow>
      listenWindowEvents (props_config p)
      \<and> \<not> (useLocalStorage (props_config p) \<and> localStorage w \<noteq> None)
      \<and> window w \<and> window_matchMedia w
      \<and> os_media w ''(prefers-color-scheme)'' \<noteq> ''not all'')
   \<and> (\<forall>pr w'. mount p w = Inr (pr, w') \<longrightarrow>
         (if provider_cleanup pr \<noteq> None then
            HandleSetDarkColorScheme (provider_setter (props_config p))
              \<in> set (listeners_of (prefers_color_scheme ''dark'') w')
            \<and> HandleSetLightColorScheme (provider_setter (props_config p))
              \<in> set (listeners_of (prefers_color_scheme ''light'') w')
            \<and> HandleSetDefaultColorScheme (props_defaultValue p)
                 (provider_setter (props_config p))
              \<in> set (listeners_of (prefers_color_scheme ''no-preference'') w')
          else targets w' = targets w))"
proof -
  have "watcher_active (mount p w) \<longleftrightarrow>
      listenWindowEvents (props_config p)
      \<and> \<not> (useLocalStorage (props_config p) \<and> localStorage w \<noteq> None)
      \<and> window w \<and> window_matchMedia w
      \<and> os_media w ''(prefers-color-scheme)'' \<noteq> ''not all''"
    by (auto simp: watcher_active_def mount_def watcher_effect_def Let_def)
  moreover have "provider_cleanup pr \<noteq> None \<Longrightarrow>
            HandleSetDarkColorScheme (provider_setter (props_config p))
              \<in> set (listeners_of (prefers_color_scheme ''dark'') w')
            \<and> HandleSetLightColorScheme (provider_setter (props_config p))
              \<in> set (listeners_of (prefers_color_scheme ''light'') w')
            \<and> HandleSetDefaultColorScheme (props_defaultValue p)
                 (provider_setter (props_config p))
              \<in> set (listeners_of (prefers_color_scheme ''no-preference'') w')"
    if "mount p w = Inr (pr, w')" for pr w'
    using that
    by (cases rule: mount_cases) (simp_all add: listeners_of_subscribe noPreference_def)
  ultimately show ?thesis
    by (simp add: mount_inactive_targets)
qed

theorem watcher_active_iff_witness:
  "watcher_active (mount default_props (host None False (\<lambda>q. False)))
   \<and> (case mount default_props (host None False (\<lambda>q. False)) of
        Inl e \<Rightarrow> False
      | Inr (pr, w') \<Rightarrow>
          HandleSetDarkColorScheme (HandleChangeColorScheme False ''__userColorScheme'')
            \<in> set (listeners_of ''(prefers-color-scheme: dark)'' w')
          \<and> HandleSetLightColorScheme (HandleChangeColorScheme False ''__userColorScheme'')
            \<in> set (listeners_of ''(prefers-color-scheme: light)'' w')
          \<and> HandleSetDefaultColorScheme light (HandleChangeColorScheme False ''__userColorScheme'')
            \<in> set (listeners_of ''(prefers-color-scheme: no-preference)'' w'))
   \<and> \<not> watcher_active (mount (storage_props ''k'' None) (host (Some Map.empty) False (\<lambda>q. False)))
   \<and> watcher_active (mount (storage_props ''k'' None) (host None False (\<lambda>q. False)))
   \<and> \<not> watcher_active (mount default_props
          ((host None False (\<lambda>q. False))\<lparr>os_media := (\<lambda>q. ''not all'')\<rparr>))
   \<and> \<not> watcher_active (mount default_props
          ((host None False (\<lambda>q. False))\<lparr>window_matchMedia := False\<rparr>))"
proof -
  let ?w = "host None False (\<lambda>q. False)"
  note defs = host_def default_props_def storage_props_def props_config_def merge_config_def
    empty_config_def defaultConfig_def props_defaultValue_def
  have a: "watcher_active (mount default_props ?w)"
    using watcher_active_iff [of default_props ?w] by (simp add: defs)
  then obtain pr w' where m: "mount default_props ?w = Inr (pr, w')"
    and c: "provider_cleanup pr \<noteq> None"
    by (auto simp: watcher_active_def split: sum.splits)
  have "HandleSetDarkColorScheme (HandleChangeColorScheme False ''__userColorScheme'')
            \<in> set (listeners_of ''(prefers-color-scheme: dark)'' w')
          \<and> HandleSetLightColorScheme (HandleChangeColorScheme False ''__userColorScheme'')
            \<in> set (listeners_of ''(prefers-color-scheme: light)'' w')
          \<and> HandleSetDefaultColorScheme light (HandleChangeColorScheme False ''__userColorScheme'')
            \<in> set (listeners_of ''(prefers-color-scheme: no-preference)'' w')"
    using watcher_active_iff [of default_props ?w] m c
    by (simp add: defs provider_setter_def prefers_color_scheme_def)
  then show ?thesis
    using a m
      watcher_active_iff [of "storage_props ''k'' None" "host (Some Map.empty) False (\<lambda>q. False)"]
      watcher_active_iff [of "storage_props ''k'' None" ?w]
      watcher_active_iff [of default_props "?w\<lparr>os_media := (\<lambda>q. ''not all'')\<rparr>"]
      watcher_active_iff [of default_props "?w\<lparr>window_matchMedia := False\<rparr>"]
    by (simp add: defs)
qed

section \<open>Properties of the active watcher\<close>

text \<open>
  C4. On a page with no other event target, while the watcher of a mounted provider is
  active, a \<^verbatim>\<open>change\<close> event of the dark, light or no-preference query calls the
  provider's setter exactly when \<^verbatim>\<open>event.matches\<close> is true: with \<open>dark\<close> for the
  dark query, with \<open>light\<close> for the light query, and with the provider's
  \<open>defaultValue\<close> for the no-preference query. When \<^verbatim>\<open>event.matches\<close> is false the world
  is as it was. The setter is called if and only if the log has grown.
\<close>

theorem watcher_forwards_matching_events:
  assumes "targets w = []" and "mount p w = Inr (pr, w1)" and "watcher_active (mount p w)"
  shows "dispatch_change (prefers_color_scheme ''dark'') ev w1 =
           (if matches ev then call_setter (snd (provider_value pr w1)) dark w1 else w1)
       \<and> dispatch_change (prefers_color_scheme ''light'') ev w1 =
           (if matches ev then call_setter (snd (provider_value pr w1)) light w1 else w1)
       \<and> dispatch_change (prefers_color_scheme ''no-preference'') ev w1 =
           (if matches ev
            then call_setter (snd (provider_value pr w1)) (props_defaultValue p) w1 else w1)
       \<and> (log (dispatch_change (prefers_color_scheme ''dark'') ev w1) \<noteq> log w1
            \<longleftrightarrow> matches ev)
       \<and> (log (dispatch_change (prefers_color_scheme ''light'') ev w1) \<noteq> log w1
            \<longleftrightarrow> matches ev)
       \<and> (log (dispatch_change (prefers_color_scheme ''no-preference'') ev w1) \<noteq> log w1
            \<longleftrightarrow> matches ev)"
proof -
  have a: "provider_cleanup pr \<noteq> None"
    using assms(2,3) by (simp add: watcher_active_def)
  have c: "provider_config pr = props_config p"
    by (rule mount_facts(1) [OF assms(2)])
  note t = mount_targets [OF assms(1,2) a]
  have d: "dispatch_change (prefers_color_scheme ''dark'') ev w1 =
           (if matches ev then call_setter (snd (provider_value pr w1)) dark w1 else w1)"
    using t c
    by (simp add: dispatch_change_def listeners_of_def provider_value_def
          prefers_color_scheme_def)
  have l: "dispatch_change (prefers_color_scheme ''light'') ev w1 =
           (if matches ev then call_setter (snd (provider_value pr w1)) light w1 else w1)"
    using t c
    by (simp add: dispatch_change_def listeners_of_def provider_value_def
          prefers_color_scheme_def)
  have n: "dispatch_change (prefers_color_scheme ''no-preference'') ev w1 =
           (if matches ev
            then call_setter (snd (provider_value pr w1)) (props_defaultValue p) w1 else w1)"
    using t c
    by (simp add: dispatch_change_def listeners_of_def provider_value_def
          prefers_color_scheme_def)
  have g: "(log (if matches ev then call_setter (snd (provider_value pr w1)) v w1 else w1)
              \<noteq> log w1) \<longleftrightarrow> matches ev" for v
    by (simp add: provider_value_def provider_setter_def handleChangeColorScheme_log)
  show ?thesis
    unfolding d l n using g by simp
qed

theorem watcher_forwards_matching_events_witness:
  "targets (host None False (\<lambda>q. q = ''(prefers-color-scheme: light)'')) = []
   \<and> watcher_active (mount (default_props\<lparr>defaultValue := Some dark\<rparr>)
        (host None False (\<lambda>q. q = ''(prefers-color-scheme: light)'')))
   \<and> (case mount (default_props\<lparr>defaultValue := Some dark\<rparr>) (host None False (\<lambda>q. q = ''(prefers-color-scheme: light)'')) of
        Inl e \<Rightarrow> False
      | Inr (pr, w1) \<Rightarrow>
          colorScheme w1 = light
          \<and> colorScheme (dispatch_change ''(prefers-color-scheme: no-preference)''
                \<lparr>matches = True\<rparr> w1) = dark
          \<and> dispatch_change ''(prefers-color-scheme: no-preference)'' \<lparr>matches = False\<rparr> w1 = w1
          \<and> dispatch_change ''(prefers-color-scheme: dark)'' \<lparr>matches = False\<rparr> w1 = w1)"
proof -
  let ?p = "default_props\<lparr>defaultValue := Some dark\<rparr>"
  let ?w = "host None False (\<lambda>q. q = ''(prefers-color-scheme: light)'')"
  have t: "targets ?w = []"
    by (simp add: host_def)
  have a: "watcher_active (mount ?p ?w)"
    by (simp add: watcher_active_def mount_def watcher_effect_def Let_def host_def
          default_props_def props_config_def merge_config_def empty_config_def defaultConfig_def)
  then obtain pr w1 where m: "mount ?p ?w = Inr (pr, w1)"
    by (auto simp: watcher_active_def split: sum.splits)
  have c: "provider_config pr = props_config ?p"
    by (rule mount_facts(1) [OF m])
  have s: "colorScheme w1 = light"
    using m a
    by (cases rule: mount_cases)
       (simp_all add: watcher_active_def subscribe_fields getInitialColorScheme_def
          localValue_scheme_def query_matches_def prefers_color_scheme_def host_def default_props_def props_config_def
          merge_config_def empty_config_def defaultConfig_def)
  show ?thesis
    using watcher_forwards_matching_events [OF t m a, of "\<lparr>matches = True\<rparr>"]
          watcher_forwards_matching_events [OF t m a, of "\<lparr>matches = False\<rparr>"]
          t a m c s
    by (simp add: prefers_color_scheme_def provider_value_def provider_setter_def
          handleChangeColorScheme_def setColorScheme_def props_defaultValue_def
          default_props_def props_config_def merge_config_def empty_config_def defaultConfig_def)
qed

section \<open>Properties of unmounting\<close>

text \<open>
  On a host that answers \<^verbatim>\<open>matchMedia\<close> with one object per query, and on a page with no
  other event target, the cleanup takes all three listeners off: after unmounting, a
  \<^verbatim>\<open>change\<close> event of any query reaches no listener and changes nothing.
\<close>

lemma unmount_one_object_per_query:
  assumes "one_object_per_query w" and "targets w = []"
    and "mount p w = Inr (pr, w1)" and "unmount pr w1 = Inr w2"
  shows "listeners_of q w2 = [] \<and> dispatch_change q ev w2 = w2"
proof -
  have "listeners_of q w2 = []"
    using assms
    by (auto simp: mount_def unmount_def watcher_effect_def Let_def subscribe_def unsubscribe_def
          matchMedia_def addEventListener_def removeEventListener_def prefers_color_scheme_def
          noPreference_def listeners_of_def split: if_splits)
  then show ?thesis by (simp add: dispatch_change_def)
qed

text \<open>
  C5, at a host that follows CSSOM View, where every call of \<^verbatim>\<open>matchMedia\<close> returns a
  new MediaQueryList object; its store is available and empty. A provider with no props is
  mounted on it and unmounted. The
  cleanup calls \<^verbatim>\<open>removeEventListener\<close> on three objects it has just obtained, which have
  no listeners, and the three objects of the subscription keep theirs: after the unmount
  each of the three queries still has its listener, and a \<^verbatim>\<open>change\<close> event with
  \<^verbatim>\<open>matches\<close> true on any of the three still runs the listener and the update path:
  the call \<^verbatim>\<open>setColorScheme(...)\<close> is made for a provider that is no longer mounted.
\<close>

theorem unmount_leaves_listeners_on_new_objects:
  "(case mount_then_unmount default_props (host (Some Map.empty) False (\<lambda>q. False)) of
      Inl e \<Rightarrow> False
    | Inr w2 \<Rightarrow>
        listeners_of ''(prefers-color-scheme: dark)'' w2
          = [HandleSetDarkColorScheme (HandleChangeColorScheme False ''__userColorScheme'')]
        \<and> listeners_of ''(prefers-color-scheme: light)'' w2
          = [HandleSetLightColorScheme (HandleChangeColorScheme False ''__userColorScheme'')]
        \<and> listeners_of ''(prefers-color-scheme: no-preference)'' w2
          = [HandleSetDefaultColorScheme light
               (HandleChangeColorScheme False ''__userColorScheme'')]
        \<and> log w2 = []
        \<and> log (dispatch_change ''(prefers-color-scheme: dark)'' \<lparr>matches = True\<rparr> w2)
            = [SetColorScheme dark]
        \<and> log (dispatch_change ''(prefers-color-scheme: light)'' \<lparr>matches = True\<rparr> w2)
            = [SetColorScheme light]
        \<and> log (dispatch_change ''(prefers-color-scheme: no-preference)'' \<lparr>matches = True\<rparr> w2)
            = [SetColorScheme light])"
  by (simp add: mount_then_unmount_def mount_def unmount_def watcher_effect_def host_def
        default_props_def props_defaultValue_def props_config_def merge_config_def
        empty_config_def defaultConfig_def provider_setter_def getInitialColorScheme_def
        localValue_scheme_def query_matches_def subscribe_def unsubscribe_def matchMedia_def
        addEventListener_def removeEventListener_def prefers_color_scheme_def noPreference_def
        listeners_of_def dispatch_change_def handleChangeColorScheme_def setColorScheme_def
        Let_def)

section \<open>Properties of DarkModeConsumer\<close>

text \<open>
  The props the wrapped component is given: those of the caller, with the properties
  \<^verbatim>\<open>"0"\<close> and \<^verbatim>\<open>"1"\<close> set to the color scheme and the setter of the context.
\<close>

lemma DarkModeConsumer_props:
  "DarkModeConsumer Component enclosing p =
     Component (p(''0'' \<mapsto> SchemeValue (fst (read_context enclosing)),
                  ''1'' \<mapsto> SetterValue (snd (read_context enclosing))))"
  by (simp add: DarkModeConsumer_def spread_value_def)

text \<open>
  C6, at a component that returns its props, outside any provider. Rendered with no props,
  the wrapped component gets no property named \<^verbatim>\<open>colorScheme\<close> and none named
  \<^verbatim>\<open>handleChangeColorScheme\<close>: the color scheme arrives as the property \<^verbatim>\<open>"0"\<close> and the
  setter as the property \<^verbatim>\<open>"1"\<close>. Rendered with a property \<^verbatim>\<open>"0"\<close> of the caller's, the
  wrapped component gets the color scheme in its place.
\<close>

theorem DarkModeConsumer_injects_indices:
  "DarkModeConsumer (\<lambda>props. props) None Map.empty ''colorScheme'' = None
   \<and> DarkModeConsumer (\<lambda>props. props) None Map.empty ''handleChangeColorScheme'' = None
   \<and> DarkModeConsumer (\<lambda>props. props) None Map.empty ''0'' = Some (SchemeValue light)
   \<and> DarkModeConsumer (\<lambda>props. props) None Map.empty ''1'' = Some (SetterValue Noop)
   \<and> DarkModeConsumer (\<lambda>props. props) None [''0'' \<mapsto> OtherValue ''x''] ''0''
       = Some (SchemeValue light)"
  by (simp add: DarkModeConsumer_def spread_value_def read_context_def
        DarkModeContext_default_def)

section \<open>Properties of sequences of operations\<close>

lemma call_setter_facts:
  "log (call_setter f v w) = log w @ call_effects (localStorage w \<noteq> None) (f, v)"
  "localStorage (call_setter f v w) = map_option (call_store (f, v)) (localStorage w)"
  "targets (call_setter f v w) = targets w"
proof -
  show "log (call_setter f v w) = log w @ call_effects (localStorage w \<noteq> None) (f, v)"
    by (cases f) (simp_all add: handleChangeColorScheme_log)
  show "localStorage (call_setter f v w) = map_option (call_store (f, v)) (localStorage w)"
  proof (cases f)
    case Noop
    then show ?thesis by (cases "localStorage w") simp_all
  next
    case (HandleChangeColorScheme u k)
    then show ?thesis
      by (cases "localStorage w")
         (simp_all add: handleChangeColorScheme_def setColorScheme_def setItem_def Let_def)
  qed
  show "targets (call_setter f v w) = targets w"
    by (cases f) (simp_all add: handleChangeColorScheme_targets)
qed

lemma run_calls_Nil: "run_calls [] w = w"
  by (simp add: run_calls_def)

lemma run_calls_Cons: "run_calls (c # cs) w = run_calls cs (call_setter (fst c) (snd c) w)"
  by (simp add: run_calls_def)

lemma run_calls_append:
  "run_calls (cs @ cs') w = run_calls cs' (run_calls cs w)"
  by (simp add: run_calls_def)

lemma run_calls_log:
  "log (run_calls cs w) = log w @ concat (map (call_effects (localStorage w \<noteq> None)) cs)"
proof (induction cs arbitrary: w)
  case Nil
  show ?case by (simp add: run_calls_Nil)
next
  case (Cons c cs)
  have "(localStorage (call_setter (fst c) (snd c) w) \<noteq> None) = (localStorage w \<noteq> None)"
    by (simp add: call_setter_facts(2))
  then show ?case
    by (simp add: run_calls_Cons Cons.IH call_setter_facts(1))
qed

lemma run_calls_store:
  "localStorage (run_calls cs w) = map_option (fold call_store cs) (localStorage w)"
proof (induction cs arbitrary: w)
  case Nil
  show ?case by (simp add: run_calls_Nil option.map_ident)
next
  case (Cons c cs)
  show ?case
    by (cases "localStorage w") (simp_all add: run_calls_Cons Cons.IH call_setter_facts(2))
qed

lemma run_calls_targets:
  "targets (run_calls cs w) = targets w"
  by (induction cs arbitrary: w) (simp_all add: run_calls_Nil run_calls_Cons call_setter_facts(3))

lemma call_listener_is_calls:
  "call_listener l ev w = run_calls (listener_calls l ev) w"
  by (cases l) (simp_all add: run_calls_Nil run_calls_Cons)

lemma fold_listeners_is_calls:
  "fold (\<lambda>l. call_listener l ev) ls w =
     run_calls (concat (map (\<lambda>l. listener_calls l ev) ls)) w"
proof (induction ls arbitrary: w)
  case Nil
  show ?case by (simp add: run_calls_Nil)
next
  case (Cons l ls)
  have "fold (\<lambda>l. call_listener l ev) (l # ls) w =
          fold (\<lambda>l. call_listener l ev) ls (call_listener l ev w)"
    by simp
  also have "\<dots> = run_calls (concat (map (\<lambda>l. listener_calls l ev) ls))
                     (run_calls (listener_calls l ev) w)"
    unfolding Cons.IH call_listener_is_calls ..
  also have "\<dots> = run_calls (concat (map (\<lambda>l. listener_calls l ev) (l # ls))) w"
    by (simp add: run_calls_append)
  finally show ?case .
qed

lemma apply_operation_is_calls:
  "apply_operation pr op w = run_calls (operation_calls pr w op) w"
proof (cases op)
  case (Set v)
  then show ?thesis
    by (simp add: provider_value_def run_calls_Nil run_calls_Cons)
next
  case (Change q ev)
  then show ?thesis
    by (simp add: dispatch_change_def fold_listeners_is_calls)
qed

lemma operation_calls_targets:
  "targets w' = targets w \<Longrightarrow> operation_calls pr w' op = operation_calls pr w op"
  by (cases op) (simp_all add: listeners_of_def)

lemma run_operations_is_calls:
  "targets w' = targets w \<Longrightarrow> run_operations pr ops w' = run_calls (calls_of pr w ops) w'"
proof (induction ops arbitrary: w')
  case Nil
  show ?case by (simp add: run_operations_def calls_of_def run_calls_Nil)
next
  case (Cons op ops)
  have t: "targets (apply_operation pr op w') = targets w"
    using Cons.prems by (simp add: apply_operation_is_calls run_calls_targets)
  have "run_operations pr (op # ops) w' = run_operations pr ops (apply_operation pr op w')"
    by (simp add: run_operations_def)
  also have "\<dots> = run_calls (calls_of pr w ops) (apply_operation pr op w')"
    by (rule Cons.IH [OF t])
  also have "\<dots> = run_calls (calls_of pr w ops) (run_calls (operation_calls pr w op) w')"
    using operation_calls_targets [OF Cons.prems, of pr op]
    by (simp add: apply_operation_is_calls)
  also have "\<dots> = run_calls (calls_of pr w (op # ops)) w'"
    by (simp add: calls_of_def run_calls_append)
  finally show ?case .
qed


lemma mounted_listeners_call_provider_setter:
  assumes "targets w = []" and "mount p w = Inr (pr, w1)" and "l \<in> set (listeners_of q w1)"
    and "c \<in> set (listener_calls l ev)"
  shows "fst c = provider_setter (props_config p)"
proof (cases "provider_cleanup pr = None")
  case True
  then have "targets w1 = []"
    using assms(1,2) by (simp add: mount_inactive_targets)
  then show ?thesis
    using assms(3) by (simp add: listeners_of_def)
next
  case False
  note t = mount_targets [OF assms(1,2) False]
  have "l = HandleSetDarkColorScheme (provider_setter (props_config p))
      \<or> l = HandleSetLightColorScheme (provider_setter (props_config p))
      \<or> l = HandleSetDefaultColorScheme (props_defaultValue p) (provider_setter (props_config p))"
    using assms(3) unfolding listeners_of_def t by (auto split: if_splits)
  then show ?thesis
    using assms(4) by (auto split: if_splits)
qed

text \<open>
  C7. A provider is mounted and any sequence of operations (calls of its setter,
  \<^verbatim>\<open>change\<close> events of any query) is run on it. The run is the calls of setters the
  operations make, one after the other. Each call of a setter with
  \<open>useLocalStorage = u\<close> and key \<open>k\<close> adds to the log the update of the scheme
  followed, if and only if \<open>u\<close> is true and the store is available, by one write of the
  string of the value under \<open>k\<close>; the store after the run is the store before it with
  exactly those writes made, in order, and an unavailable store stays unavailable. The
  provider's own setter has the \<open>useLocalStorage\<close> and the \<open>localStorageKey\<close> of the
  merged configuration, the key being the caller's when the caller gave one and
  \<^verbatim>\<open>"__userColorScheme"\<close> otherwise. On a page with no event target of another
  provider, every call of the run is a call of that setter, so the store is written if and
  only if \<open>useLocalStorage\<close> is true and the store is available, and every write is
  under the merged key.
\<close>

theorem writes_use_configured_key:
  assumes "mount p w = Inr (pr, w1)"
  shows "log (run_operations pr ops w1) =
           log w1 @ concat (map (call_effects (localStorage w \<noteq> None)) (calls_of pr w1 ops))
       \<and> localStorage (run_operations pr ops w1) =
           map_option (fold call_store (calls_of pr w1 ops)) (localStorage w)
       \<and> provider_setter (provider_config pr) =
           HandleChangeColorScheme (useLocalStorage (props_config p))
             (localStorageKey (props_config p))
       \<and> localStorageKey (props_config p) =
           (case config p of
              None \<Rightarrow> ''__userColorScheme''
            | Some c \<Rightarrow> (case localStorageKey_prop c of
                           None \<Rightarrow> ''__userColorScheme'' | Some k \<Rightarrow> k))
       \<and> (targets w = [] \<longrightarrow>
            (\<forall>c \<in> set (calls_of pr w1 ops). fst c = provider_setter (provider_config pr)))"
proof -
  note m = mount_facts [OF assms]
  have r: "run_operations pr ops w1 = run_calls (calls_of pr w1 ops) w1"
    by (rule run_operations_is_calls [OF refl])
  have 1: "log (run_operations pr ops w1) =
           log w1 @ concat (map (call_effects (localStorage w \<noteq> None)) (calls_of pr w1 ops))"
    unfolding r by (simp add: run_calls_log m(2))
  have 2: "localStorage (run_operations pr ops w1) =
           map_option (fold call_store (calls_of pr w1 ops)) (localStorage w)"
    unfolding r by (simp add: run_calls_store m(2))
  have 3: "provider_setter (provider_config pr) =
           HandleChangeColorScheme (useLocalStorage (props_config p))
             (localStorageKey (props_config p))"
    by (simp add: m(1) provider_setter_def)
  have 4: "localStorageKey (props_config p) =
           (case config p of
              None \<Rightarrow> ''__userColorScheme''
            | Some c \<Rightarrow> (case localStorageKey_prop c of
                           None \<Rightarrow> ''__userColorScheme'' | Some k \<Rightarrow> k))"
    by (simp add: props_config_def merge_config_def empty_config_def defaultConfig_def
          split: option.splits)
  have 5: "fst c = provider_setter (provider_config pr)"
    if t: "targets w = []" and c: "c \<in> set (calls_of pr w1 ops)" for c
  proof -
    from c obtain op where op: "op \<in> set ops" "c \<in> set (operation_calls pr w1 op)"
      by (auto simp: calls_of_def)
    show ?thesis
    proof (cases op)
      case (Set v)
      with op(2) show ?thesis by simp
    next
      case (Change q ev)
      with op(2) obtain l where "l \<in> set (listeners_of q w1)" "c \<in> set (listener_calls l ev)"
        by auto
      from mounted_listeners_call_provider_setter [OF t assms this] show ?thesis
        by (simp add: m(1))
    qed
  qed
  from 1 2 3 4 5 show ?thesis by blast
qed

theorem writes_use_configured_key_witness:
  "targets (host (Some Map.empty) True (\<lambda>q. False)) = []
   \<and> (case mount (storage_props ''k'' None) (host (Some Map.empty) True (\<lambda>q. False)) of
        Inl e \<Rightarrow> False
      | Inr (pr, w1) \<Rightarrow>
          log (run_operations pr
                 [Set dark, Change ''(prefers-color-scheme: light)'' \<lparr>matches = True\<rparr>, Set light]
                 w1)
            = [SetColorScheme dark, SetItem ''k'' ''dark'',
               SetColorScheme light, SetItem ''k'' ''light'']
          \<and> (case localStorage (run_operations pr
                 [Set dark, Change ''(prefers-color-scheme: light)'' \<lparr>matches = True\<rparr>, Set light]
                 w1) of
                None \<Rightarrow> False
              | Some store \<Rightarrow> store ''k'' = Some ''light'' \<and> store ''__userColorScheme'' = None))
   \<and> (case mount default_props (host (Some Map.empty) True (\<lambda>q. False)) of
        Inl e \<Rightarrow> False
      | Inr (pr, w1) \<Rightarrow>
          log (run_operations pr
                 [Change ''(prefers-color-scheme: dark)'' \<lparr>matches = True\<rparr>, Set light] w1)
            = [SetColorScheme dark, SetColorScheme light]
          \<and> (case localStorage (run_operations pr
                 [Change ''(prefers-color-scheme: dark)'' \<lparr>matches = True\<rparr>, Set light] w1) of
                None \<Rightarrow> False
              | Some store \<Rightarrow> store ''__userColorScheme'' = None))"
proof -
  let ?w = "host (Some Map.empty) True (\<lambda>q. False)"
  have t: "targets ?w = []"
    by (simp add: host_def)
  obtain pr w1 where m: "mount (storage_props ''k'' None) ?w = Inr (pr, w1)"
    by (simp add: mount_def watcher_effect_def Let_def host_def storage_props_def
          props_config_def merge_config_def defaultConfig_def)
  obtain pr' w1' where m': "mount default_props ?w = Inr (pr', w1')"
    by (simp add: mount_def watcher_effect_def Let_def host_def default_props_def
          props_config_def merge_config_def empty_config_def defaultConfig_def)
  note writes_use_configured_key [OF m,
      of "[Set dark, Change ''(prefers-color-scheme: light)'' \<lparr>matches = True\<rparr>, Set light]"]
    and writes_use_configured_key [OF m',
      of "[Change ''(prefers-color-scheme: dark)'' \<lparr>matches = True\<rparr>, Set light]"]
  then show ?thesis
    by (simp add: mount_def watcher_effect_def host_def
        default_props_def storage_props_def props_defaultValue_def props_config_def
        merge_config_def empty_config_def defaultConfig_def provider_setter_def
        provider_value_def run_operations_def getInitialColorScheme_def
        localValue_scheme_def query_matches_def subscribe_def matchMedia_def
        addEventListener_def prefers_color_scheme_def noPreference_def
        listeners_of_def dispatch_change_def handleChangeColorScheme_def setColorScheme_def
        setItem_def getItem_or_empty_eq calls_of_def Let_def)
qed

section \<open>The round trip through the store\<close>

text \<open>
  C9. A provider with \<open>useLocalStorage\<close> true is mounted on a host whose store is
  available, and its setter is called with \<open>x\<close>. A second provider with
  \<open>useLocalStorage\<close> true and the same key is then mounted over the store as the call
  left it, on a host that may differ in everything else (what the OS queries report
  included) and with any default value. The second provider mounts, and its color scheme
  is \<open>x\<close>.
\<close>

theorem set_then_fresh_provider:
  assumes "useLocalStorage (props_config p)" and "localStorage w \<noteq> None"
    and "mount p w = Inr (pr, w1)"
    and "w2 = call_setter (snd (provider_value pr w1)) x w1"
    and "localStorage w3 = localStorage w2"
    and "useLocalStorage (props_config p')"
    and "localStorageKey (props_config p') = localStorageKey (props_config p)"
  shows "\<exists>pr' w4. mount p' w3 = Inr (pr', w4) \<and> colorScheme w4 = x
           \<and> fst (provider_value pr' w4) = x"
proof -
  obtain store where st: "localStorage w = Some store"
    using assms(2) by auto
  have pr: "provider_config pr = props_config p" and w1: "localStorage w1 = Some store"
    using assms(1,3) st by (auto simp: mount_with_storage)
  have w2: "localStorage w2 = Some (store(localStorageKey (props_config p) \<mapsto> scheme_string x))"
    using assms(1,4) pr w1
    by (simp add: provider_value_def provider_setter_def handleChangeColorScheme_def
          setColorScheme_def setItem_def)
  then have "getInitialColorScheme (props_defaultValue p') True
               (localStorageKey (props_config p')) w3 = x"
    using assms(5,7)
    by (cases x) (simp_all add: getInitialColorScheme_def localValue_scheme_def
          getItem_or_empty_eq)
  moreover have "localStorage w3 \<noteq> None"
    using assms(5) w2 by simp
  ultimately show ?thesis
    using assms(6) by (simp add: mount_with_storage provider_value_def)
qed

theorem set_then_fresh_provider_witness:
  "useLocalStorage (props_config (storage_props ''k'' None))
   \<and> localStorage (host (Some Map.empty) False (\<lambda>q. False)) \<noteq> None
   \<and> (\<exists>pr' w4.
        mount (storage_props ''k'' (Some light))
          (host (Some [''k'' \<mapsto> ''dark'']) False (\<lambda>q. q = ''(prefers-color-scheme: light)''))
          = Inr (pr', w4)
        \<and> colorScheme w4 = dark \<and> fst (provider_value pr' w4) = dark)"
proof -
  let ?p = "storage_props ''k'' None"
  let ?w = "host (Some Map.empty) False (\<lambda>q. False)"
  let ?w3 = "host (Some [''k'' \<mapsto> ''dark'']) False (\<lambda>q. q = ''(prefers-color-scheme: light)'')"
  have u: "useLocalStorage (props_config ?p)"
    and u': "useLocalStorage (props_config (storage_props ''k'' (Some light)))"
    and k: "localStorageKey (props_config (storage_props ''k'' (Some light)))
              = localStorageKey (props_config ?p)"
    by (simp_all add: storage_props_def props_config_def merge_config_def)
  have a: "localStorage ?w \<noteq> None"
    by (simp add: host_def)
  obtain pr w1 where m: "mount ?p ?w = Inr (pr, w1)"
    using mount_with_storage [OF u a] by blast
  have pr: "provider_config pr = props_config ?p" and w1: "localStorage w1 = Some Map.empty"
    using m mount_facts [OF m] by (simp_all add: host_def)
  have s: "localStorage ?w3 = localStorage (call_setter (snd (provider_value pr w1)) dark w1)"
    using pr w1
    by (simp add: host_def provider_value_def provider_setter_def handleChangeColorScheme_def
          setColorScheme_def setItem_def storage_props_def props_config_def merge_config_def)
  show ?thesis
    using set_then_fresh_provider [OF u a m refl s u' k] u a by simp
qed

end
